theory Spec2Isabelle
  imports Main
begin

section \<open>Exceptions\<close>

text \<open>
  Modelled from the spec: the class \<open>BusinessException\<close> of \<open>legal_api.exceptions\<close> is
  not among the source files. It is the exception an identifier assignment fails with, and
  carries the two arguments it is raised with, the error text and the status code. The
  other constructors are the built-in exceptions the modelled code can raise; every raise
  is a value. \<open>IntegrityError\<close> and \<open>StaleDataError\<close> are the errors of the database
  session when a row cannot be inserted or updated.
\<close>

datatype exn =
    ValueError
  | OverflowError
  | AttributeError
  | TypeError
  | BusinessException string nat
  | IntegrityError
  | StaleDataError

section \<open>Calendar dates (Python's \<open>datetime.date\<close>)\<close>

record date =
  year :: int
  month :: int
  day :: int

definition Date :: "int \<Rightarrow> int \<Rightarrow> int \<Rightarrow> date" where
  "Date y m d = \<lparr>year = y, month = m, day = d\<rparr>"

definition is_leap :: "int \<Rightarrow> bool" where
  "is_leap y = (y mod 4 = 0 \<and> (y mod 100 \<noteq> 0 \<or> y mod 400 = 0))"

text \<open>The table \<open>_DAYS_IN_MONTH\<close> of the standard library, indexed by month 1..12.\<close>

definition DAYS_IN_MONTH :: "int \<Rightarrow> int" where
  "DAYS_IN_MONTH m =
     (if m = 2 then 28
      else if m = 4 \<or> m = 6 \<or> m = 9 \<or> m = 11 then 30
      else 31)"

definition days_in_month :: "int \<Rightarrow> int \<Rightarrow> int" where
  "days_in_month y m = (if m = 2 \<and> is_leap y then 29 else DAYS_IN_MONTH m)"

text \<open>The table \<open>_DAYS_BEFORE_MONTH\<close>: days of a common year before the first of the month.\<close>

definition DAYS_BEFORE_MONTH :: "int \<Rightarrow> int" where
  "DAYS_BEFORE_MONTH m =
     (if m = 1 then 0 else if m = 2 then 31 else if m = 3 then 59
      else if m = 4 then 90 else if m = 5 then 120 else if m = 6 then 151
      else if m = 7 then 181 else if m = 8 then 212 else if m = 9 then 243
      else if m = 10 then 273 else if m = 11 then 304 else 334)"

definition days_before_year :: "int \<Rightarrow> int" where
  "days_before_year y =
     (let p = y - 1 in p * 365 + p div 4 - p div 100 + p div 400)"

definition days_before_month :: "int \<Rightarrow> int \<Rightarrow> int" where
  "days_before_month y m =
     DAYS_BEFORE_MONTH m + (if m > 2 \<and> is_leap y then 1 else 0)"

definition MINYEAR :: int where "MINYEAR = 1"
definition MAXYEAR :: int where "MAXYEAR = 9999"
definition MAXORDINAL :: int where "MAXORDINAL = 3652059"

text \<open>
  The constructor \<open>datetime(y, m, d)\<close> followed by \<open>.date()\<close>. An argument that does not
  fit a C \<open>int\<close> raises OverflowError; a year outside 1..9999, a month outside 1..12 or a
  day the month does not have raises ValueError.
\<close>

definition fits_c_int :: "int \<Rightarrow> bool" where
  "fits_c_int n = (- 2147483648 \<le> n \<and> n \<le> 2147483647)"

definition valid_date :: "int \<Rightarrow> int \<Rightarrow> int \<Rightarrow> bool" where
  "valid_date y m d =
     (MINYEAR \<le> y \<and> y \<le> MAXYEAR \<and> 1 \<le> m \<and> m \<le> 12 \<and> 1 \<le> d \<and> d \<le> days_in_month y m)"

definition mk_date :: "int \<Rightarrow> int \<Rightarrow> int \<Rightarrow> exn + date" where
  "mk_date y m d =
     (if \<not> (fits_c_int y \<and> fits_c_int m \<and> fits_c_int d) then Inl OverflowError
      else if \<not> valid_date y m d then Inl ValueError
      else Inr (Date y m d))"

text \<open>\<open>date.toordinal\<close>: the day number, 1 for 0001-01-01.\<close>

definition toordinal :: "date \<Rightarrow> int" where
  "toordinal d = days_before_year (year d) + days_before_month (year d) (month d) + day d"

text \<open>\<open>date.fromordinal\<close> (the library's \<open>_ord2ymd\<close>), for an ordinal in 1..MAXORDINAL.\<close>

definition fromordinal :: "int \<Rightarrow> date" where
  "fromordinal n0 =
     (let n = n0 - 1;
          n400 = n div 146097; r400 = n mod 146097;
          n100 = r400 div 36524; r100 = r400 mod 36524;
          n4 = r100 div 1461; r4 = r100 mod 1461;
          n1 = r4 div 365; r = r4 mod 365;
          y = n400 * 400 + 1 + n100 * 100 + n4 * 4 + n1
      in if n1 = 4 \<or> n100 = 4 then Date (y - 1) 12 31
         else
           let leapyear = (n1 = 3 \<and> (n4 \<noteq> 24 \<or> n100 = 3));
               m = (r + 50) div 32;
               preceding = DAYS_BEFORE_MONTH m + (if m > 2 \<and> leapyear then 1 else 0)
           in if preceding > r
              then Date y (m - 1)
                     (r - (preceding
                             - (DAYS_IN_MONTH (m - 1) + (if m - 1 = 2 \<and> leapyear then 1 else 0))) + 1)
              else Date y m (r - preceding + 1))"

text \<open>
  \<open>d + datedelta(days=n)\<close>: a delta with days only moves the date by that many days, as
  \<open>d + timedelta(days=n)\<close> does, and raises OverflowError past 9999-12-31.
\<close>

definition add_days :: "date \<Rightarrow> int \<Rightarrow> exn + date" where
  "add_days d n =
     (let ord = toordinal d + n
      in if 0 < ord \<and> ord \<le> MAXORDINAL then Inr (fromordinal ord) else Inl OverflowError)"

text \<open>Dates compare as the triples (year, month, day).\<close>

definition date_less :: "date \<Rightarrow> date \<Rightarrow> bool" where
  "date_less a b =
     (year a < year b \<or>
      (year a = year b \<and> (month a < month b \<or> (month a = month b \<and> day a < day b))))"

definition date_le :: "date \<Rightarrow> date \<Rightarrow> bool" where
  "date_le a b = (\<not> date_less b a)"

section \<open>Timestamps\<close>

text \<open>
  A timestamp is a calendar date and the microseconds since midnight. All timestamps of the
  model are timezone-aware values in UTC, so comparison is the comparison of the pairs.
  The class \<open>datetime\<close> of \<open>legal_api.utils.datetime\<close> is not among the source files:
  what its \<open>utcnow\<close> returns is a parameter (\<open>today\<close>, \<open>now\<close>) of the functions
  that call it.
\<close>

record datetime =
  dt_date :: date
  dt_usec :: nat

definition datetime_less :: "datetime \<Rightarrow> datetime \<Rightarrow> bool" where
  "datetime_less a b =
     (date_less (dt_date a) (dt_date b) \<or> (dt_date a = dt_date b \<and> dt_usec a < dt_usec b))"

text \<open>The argument of \<open>datedelta.datedelta(years=..., months=..., days=...)\<close>.\<close>

record datedelta =
  years :: int
  months :: int
  days :: int

section \<open>The Business model\<close>

text \<open>
  The columns of the table \<open>businesses\<close>. An attribute that was never assigned reads
  \<open>None\<close>. \<open>id_col\<close> is the primary key \<open>id\<close>, which the class never
  assigns: it is \<open>None\<close> until the first save gives the object its key.
  \<open>identifier_col\<close> is the private attribute \<open>_identifier\<close>.
\<close>

record business =
  id_col :: "int option"
  last_modified :: "datetime option"
  last_ledger_id :: "int option"
  last_remote_ledger_id :: "int option"
  last_ledger_timestamp :: "datetime option"
  last_ar_date :: "datetime option"
  last_agm_date :: "datetime option"
  legal_name :: "string option"
  legal_type :: "string option"
  founding_date :: "datetime option"
  dissolution_date :: "datetime option"
  identifier_col :: "string option"
  tax_id :: "string option"
  fiscal_year_end_date :: "datetime option"
  restriction_ind :: "bool option"
  last_ar_year :: "int option"
  association_type :: "string option"
  submitter_userid :: "int option"

text \<open>A business with the given key and nothing else set.\<close>

definition new_business :: "int \<Rightarrow> business" where
  "new_business k =
     \<lparr>id_col = Some k, last_modified = None, last_ledger_id = None, last_remote_ledger_id = None,
      last_ledger_timestamp = None, last_ar_date = None, last_agm_date = None,
      legal_name = None, legal_type = None, founding_date = None, dissolution_date = None,
      identifier_col = None, tax_id = None, fiscal_year_end_date = None,
      restriction_ind = None, last_ar_year = None, association_type = None,
      submitter_userid = None\<rparr>"

definition COOP :: string where "COOP = ''CP''"
definition BCOMP :: string where "BCOMP = ''BEN''"

subsection \<open>\<open>Business.get_ar_dates\<close>\<close>

text \<open>
  The first part of \<open>get_ar_dates\<close>, up to the comparison with the current date: the
  window of the legal type. Both defaults are built before the legal type is looked at,
  so a year outside 1..9999 raises for every legal type.
\<close>

definition ar_dates_rule :: "business \<Rightarrow> int \<Rightarrow> exn + (date \<times> date)" where
  "ar_dates_rule self next_ar_year =
     (case mk_date next_ar_year 1 1 of
        Inl e \<Rightarrow> Inl e
      | Inr ar_min_date \<Rightarrow>
         (case mk_date next_ar_year 12 31 of
            Inl e \<Rightarrow> Inl e
          | Inr ar_max_date \<Rightarrow>
              if legal_type self = Some COOP then
                (if next_ar_year = 2020 then
                   (case mk_date (next_ar_year + 1) 10 31 of
                      Inl e \<Rightarrow> Inl e
                    | Inr mx \<Rightarrow> Inr (ar_min_date, mx))
                 else
                   (case mk_date (next_ar_year + 1) 4 30 of
                      Inl e \<Rightarrow> Inl e
                    | Inr mx \<Rightarrow> Inr (ar_min_date, mx)))
              else if legal_type self = Some BCOMP then
                (case founding_date self of
                   None \<Rightarrow> Inl AttributeError
                 | Some f \<Rightarrow>
                    (case mk_date next_ar_year (month (dt_date f)) (day (dt_date f)) of
                       Inl e \<Rightarrow> Inl e
                     | Inr mn \<Rightarrow>
                        (case add_days mn 60 of
                           Inl e \<Rightarrow> Inl e
                         | Inr mx \<Rightarrow> Inr (mn, mx))))
              else Inr (ar_min_date, ar_max_date)))"

text \<open>
  The last step of \<open>get_ar_dates\<close>: a maximum later than the current date is replaced
  by the current date (\<open>if ar_max_date > today: ar_max_date = today\<close>).
\<close>

definition clamp_to :: "date \<Rightarrow> date \<Rightarrow> date" where
  "clamp_to today ar_max_date = (if date_less today ar_max_date then today else ar_max_date)"

text \<open>
  The whole method: the window of the legal type, with the maximum clamped.
  \<open>today\<close> is \<open>datetime.utcnow().date()\<close>, read once.
\<close>

definition get_ar_dates :: "business \<Rightarrow> int \<Rightarrow> date \<Rightarrow> exn + (date \<times> date)" where
  "get_ar_dates self next_ar_year today =
     (case ar_dates_rule self next_ar_year of
        Inl e \<Rightarrow> Inl e
      | Inr (ar_min_date, ar_max_date) \<Rightarrow> Inr (ar_min_date, clamp_to today ar_max_date))"

subsection \<open>\<open>Business.good_standing\<close>\<close>

text \<open>
  \<open>self.last_ar_date or self.founding_date\<close>: a timestamp is always truthy, so the
  first operand is taken exactly when it is not None.
\<close>

definition last_ar_date_or_founding_date :: "business \<Rightarrow> datetime option" where
  "last_ar_date_or_founding_date self =
     (case last_ar_date self of Some d \<Rightarrow> Some d | None \<Rightarrow> founding_date self)"

definition good_standing_delta :: datedelta where
  "good_standing_delta = \<lparr>years = 1, months = 2, days = 1\<rparr>"

text \<open>
  The property \<open>good_standing\<close>. The package \<open>datedelta\<close> is not part of the repository:
  its addition of a delta to a timestamp is the parameter \<open>add_delta\<close>, which may raise.
  \<open>now\<close> is \<open>datetime.utcnow()\<close>. With neither date set the addition is applied to None
  and raises TypeError.
\<close>

definition good_standing ::
  "(datetime \<Rightarrow> datedelta \<Rightarrow> exn + datetime) \<Rightarrow> business \<Rightarrow> datetime \<Rightarrow> exn + bool" where
  "good_standing add_delta self now =
     (case last_ar_date_or_founding_date self of
        None \<Rightarrow> Inl TypeError
      | Some d \<Rightarrow>
         (case add_delta d good_standing_delta of
            Inl e \<Rightarrow> Inl e
          | Inr t \<Rightarrow> Inr (datetime_less now t)))"

subsection \<open>\<open>Business.validate_identifier\<close>\<close>

text \<open>
  Strings are lists of 8-bit characters, read as the code points 0..255. Python's
  \<open>int(s)\<close> skips white space at both ends, takes one optional sign and then needs
  decimal digits, where single underscores may stand between two digits; anything else
  raises ValueError, here \<open>None\<close>. Among the code points below 256 the white space it
  skips is 9..13, 32, 133 and 160.
\<close>

definition is_py_space :: "char \<Rightarrow> bool" where
  "is_py_space c =
     (let n = (of_char c :: nat)
      in (9 \<le> n \<and> n \<le> 13) \<or> n = 32 \<or> n = 133 \<or> n = 160)"

definition is_digit :: "char \<Rightarrow> bool" where
  "is_digit c = (let n = (of_char c :: nat) in 48 \<le> n \<and> n \<le> 57)"

definition digit_val :: "char \<Rightarrow> int" where
  "digit_val c = of_char c - 48"

definition strip :: "string \<Rightarrow> string" where
  "strip s = rev (dropWhile is_py_space (rev (dropWhile is_py_space s)))"

text \<open>
  The digits after the first one. \<open>after_us\<close> says that the character before was an
  underscore, which must be followed by a digit.
\<close>

fun parse_digits :: "int \<Rightarrow> bool \<Rightarrow> string \<Rightarrow> int option" where
  "parse_digits acc after_us [] = (if after_us then None else Some acc)"
| "parse_digits acc after_us (c # cs) =
     (if is_digit c then parse_digits (10 * acc + digit_val c) False cs
      else if c = CHR ''_'' \<and> \<not> after_us then parse_digits acc True cs
      else None)"

definition parse_unsigned :: "string \<Rightarrow> int option" where
  "parse_unsigned s =
     (case s of
        [] \<Rightarrow> None
      | c # cs \<Rightarrow> if is_digit c then parse_digits (digit_val c) False cs else None)"

definition py_int :: "string \<Rightarrow> int option" where
  "py_int s =
     (case strip s of
        [] \<Rightarrow> None
      | c # cs \<Rightarrow>
          if c = CHR ''-'' then map_option uminus (parse_unsigned cs)
          else if c = CHR ''+'' then parse_unsigned cs
          else parse_unsigned (c # cs))"

text \<open>The slices \<open>s[-n:]\<close> and \<open>s[:-n]\<close> for \<open>n > 0\<close>; \<open>s[:n]\<close> is \<open>take n s\<close>.\<close>

definition slice_last :: "nat \<Rightarrow> string \<Rightarrow> string" where
  "slice_last n s = drop (length s - n) s"

definition slice_but_last :: "nat \<Rightarrow> string \<Rightarrow> string" where
  "slice_but_last n s = take (length s - n) s"

definition validate_identifier :: "string \<Rightarrow> bool" where
  "validate_identifier identifier =
     (if take 2 identifier = ''NR'' then True
      else if length identifier < 9 then False
      else
        (case py_int (slice_last 7 identifier) of
           None \<Rightarrow> False
         | Some d \<Rightarrow>
             if d = 0 then False
             else if slice_but_last 7 identifier \<notin> set [''CP'', ''XCP'', ''BC''] then False
             else True))"

subsection \<open>The setter of \<open>Business.identifier\<close>\<close>

text \<open>
  The result is the exception raised, if any, and the business after the call.
\<close>

definition set_identifier :: "business \<Rightarrow> string \<Rightarrow> exn option \<times> business" where
  "set_identifier self v =
     (if validate_identifier v then (None, self\<lparr>identifier_col := Some v\<rparr>)
      else (Some (BusinessException ''invalid-identifier-format'' 406), self))"

subsection \<open>\<open>Business.save\<close> and \<open>Business.delete\<close>\<close>




definition or_default :: "'a option \<Rightarrow> 'a \<Rightarrow> 'a option" where
  "or_default v d = (case v of None \<Rightarrow> Some d | Some x \<Rightarrow> Some x)"






section \<open>Validation of the voluntary dissolution filing\<close>

text \<open>
  Modelled from the spec: the class \<open>Error\<close> of \<open>legal_api.errors\<close> is not among the
  source files. It is the structured error a validator returns: the status code and the
  list of field-level errors (dictionaries) it is constructed with.
  \<open>HTTPStatus.BAD_REQUEST\<close> is 400. The translation function \<open>_\<close> of \<open>flask_babel\<close>
  is the parameter \<open>gettext\<close> of the validator.
\<close>

record Error =
  code :: nat
  msg :: "(string \<times> string) list list"

text \<open>
  Truthiness of the two arguments: a business object is truthy, None is not; a dictionary
  is truthy when it has an entry.
\<close>

definition truthy_business :: "business option \<Rightarrow> bool" where
  "truthy_business b = (b \<noteq> None)"

definition truthy_dict :: "(string \<times> 'v) list option \<Rightarrow> bool" where
  "truthy_dict con = (case con of None \<Rightarrow> False | Some kvs \<Rightarrow> kvs \<noteq> [])"

definition validate ::
  "(string \<Rightarrow> string) \<Rightarrow> business option \<Rightarrow> (string \<times> 'v) list option \<Rightarrow> Error option" where
  "validate gettext business con =
     (if \<not> truthy_business business \<or> \<not> truthy_dict con then
        Some \<lparr>code = 400,
              msg = [[(''error'', gettext ''A valid business and filing are required.'')]]\<rparr>
      else None)"

section \<open>Facts about dates\<close>

lemmas date_eval = Date_def mk_date_def valid_date_def fits_c_int_def MINYEAR_def MAXYEAR_def
  days_in_month_def DAYS_IN_MONTH_def is_leap_def add_days_def toordinal_def fromordinal_def
  days_before_year_def days_before_month_def DAYS_BEFORE_MONTH_def MAXORDINAL_def
  date_less_def clamp_to_def

lemma fits_c_int_small: "- 2147483648 \<le> n \<Longrightarrow> n \<le> 2147483647 \<Longrightarrow> fits_c_int n"
  by (simp add: fits_c_int_def)

lemma days_in_month_le: "days_in_month y m \<le> 31"
  by (simp add: days_in_month_def DAYS_IN_MONTH_def)

lemma mk_date_valid: "valid_date y m d \<Longrightarrow> mk_date y m d = Inr (Date y m d)"
proof -
  assume v: "valid_date y m d"
  have "d \<le> 31" using v days_in_month_le [of y m] by (simp add: valid_date_def)
  with v have "fits_c_int y \<and> fits_c_int m \<and> fits_c_int d"
    by (simp add: valid_date_def fits_c_int_def MINYEAR_def MAXYEAR_def)
  with v show ?thesis by (simp add: mk_date_def)
qed

lemma mk_date_Inr: "mk_date y m d = Inr x \<Longrightarrow> valid_date y m d \<and> x = Date y m d"
  by (auto simp: mk_date_def split: if_splits)

lemma valid_jan1: "1 \<le> y \<Longrightarrow> y \<le> 9999 \<Longrightarrow> valid_date y 1 1"
  by (simp add: valid_date_def MINYEAR_def MAXYEAR_def days_in_month_def DAYS_IN_MONTH_def)

lemma valid_dec31: "1 \<le> y \<Longrightarrow> y \<le> 9999 \<Longrightarrow> valid_date y 12 31"
  by (simp add: valid_date_def MINYEAR_def MAXYEAR_def days_in_month_def DAYS_IN_MONTH_def)

lemma valid_apr30: "1 \<le> y \<Longrightarrow> y \<le> 9999 \<Longrightarrow> valid_date y 4 30"
  by (simp add: valid_date_def MINYEAR_def MAXYEAR_def days_in_month_def DAYS_IN_MONTH_def)

lemma valid_oct31: "1 \<le> y \<Longrightarrow> y \<le> 9999 \<Longrightarrow> valid_date y 10 31"
  by (simp add: valid_date_def MINYEAR_def MAXYEAR_def days_in_month_def DAYS_IN_MONTH_def)

lemma valid_date_year: "valid_date y m d \<Longrightarrow> 1 \<le> y \<and> y \<le> 9999"
  by (simp add: valid_date_def MINYEAR_def MAXYEAR_def)

lemma date_less_irrefl: "\<not> date_less a a"
  by (simp add: date_less_def)

lemma date_less_trans: "date_less a b \<Longrightarrow> date_less b c \<Longrightarrow> date_less a c"
  by (auto simp: date_less_def)

lemma date_le_iff: "date_le a b \<longleftrightarrow> date_less a b \<or> a = b"
  by (cases a, cases b) (auto simp: date_le_def date_less_def)

lemma ar_dates_rule_COOP:
  assumes "legal_type self = Some ''CP''" "1 \<le> y" "y \<le> 9998"
  shows "ar_dates_rule self y =
           Inr (Date y 1 1, if y = 2020 then Date 2021 10 31 else Date (y + 1) 4 30)"
proof -
  have a: "mk_date y 1 1 = Inr (Date y 1 1)" "mk_date y 12 31 = Inr (Date y 12 31)"
    using assms by (simp_all add: mk_date_valid valid_jan1 valid_dec31)
  have b: "mk_date (y + 1) 4 30 = Inr (Date (y + 1) 4 30)"
    using assms by (simp add: mk_date_valid valid_apr30)
  have c: "mk_date 2021 10 31 = Inr (Date 2021 10 31)"
    by (simp add: mk_date_valid valid_oct31)
  show ?thesis using assms(1) a b c by (simp add: ar_dates_rule_def COOP_def)
qed

lemma ar_dates_rule_BCOMP:
  assumes "legal_type self = Some ''BEN''" "founding_date self = Some f"
    and "mk_date y (month (dt_date f)) (day (dt_date f)) = Inr mn"
  shows "ar_dates_rule self y = (case add_days mn 60 of Inl e \<Rightarrow> Inl e | Inr mx \<Rightarrow> Inr (mn, mx))"
proof -
  have "valid_date y (month (dt_date f)) (day (dt_date f))"
    using assms(3) mk_date_Inr by blast
  then have yr: "1 \<le> y" "y \<le> 9999" using valid_date_year by blast+
  have a: "mk_date y 1 1 = Inr (Date y 1 1)" "mk_date y 12 31 = Inr (Date y 12 31)"
    using yr by (simp_all add: mk_date_valid valid_jan1 valid_dec31)
  show ?thesis using assms a by (simp add: ar_dates_rule_def COOP_def BCOMP_def)
qed

lemma ar_dates_rule_other:
  assumes "legal_type self \<noteq> Some ''CP''" "legal_type self \<noteq> Some ''BEN''" "1 \<le> y" "y \<le> 9999"
  shows "ar_dates_rule self y = Inr (Date y 1 1, Date y 12 31)"
proof -
  have a: "mk_date y 1 1 = Inr (Date y 1 1)" "mk_date y 12 31 = Inr (Date y 12 31)"
    using assms by (simp_all add: mk_date_valid valid_jan1 valid_dec31)
  show ?thesis using assms(1,2) a by (simp add: ar_dates_rule_def COOP_def BCOMP_def)
qed

section \<open>The annual report window\<close>

text \<open>
  Claim C1. \<open>get_ar_dates\<close> computes the window of the rule table, before the maximum is
  clamped to the current date: for the legal type CP (cooperative) the minimum is January 1
  of the target year and the maximum April 30 of the following year, except that for the
  target year 2020 the maximum is October 31 of 2021; for BEN (benefit company) the minimum
  is the founding month and day in the target year and the maximum is the minimum plus 60
  days; for every other legal type the window is January 1 to December 31 of the target
  year. The first and third statement hold for every target year the calendar has (for CP
  the following year must exist too); the second whenever the anniversary exists and the
  date 60 days later exists.
\<close>

theorem get_ar_dates_rule_table:
  "(legal_type self = Some ''CP'' \<and> 1 \<le> y \<and> y \<le> 9998 \<longrightarrow>
      get_ar_dates self y today =
        Inr (Date y 1 1,
             clamp_to today (if y = 2020 then Date 2021 10 31 else Date (y + 1) 4 30)))
   \<and> (legal_type self = Some ''BEN'' \<and> founding_date self = Some f
        \<and> mk_date y (month (dt_date f)) (day (dt_date f)) = Inr mn
        \<and> add_days mn 60 = Inr mx \<longrightarrow>
      mn = Date y (month (dt_date f)) (day (dt_date f))
      \<and> get_ar_dates self y today = Inr (mn, clamp_to today mx))
   \<and> (legal_type self \<noteq> Some ''CP'' \<and> legal_type self \<noteq> Some ''BEN''
        \<and> 1 \<le> y \<and> y \<le> 9999 \<longrightarrow>
      get_ar_dates self y today = Inr (Date y 1 1, clamp_to today (Date y 12 31)))"
proof (intro conjI impI)
  assume "legal_type self = Some ''CP'' \<and> 1 \<le> y \<and> y \<le> 9998"
  then show "get_ar_dates self y today =
        Inr (Date y 1 1,
             clamp_to today (if y = 2020 then Date 2021 10 31 else Date (y + 1) 4 30))"
    by (simp add: get_ar_dates_def ar_dates_rule_COOP)
next
  assume h: "legal_type self = Some ''BEN'' \<and> founding_date self = Some f
        \<and> mk_date y (month (dt_date f)) (day (dt_date f)) = Inr mn
        \<and> add_days mn 60 = Inr mx"
  then show "mn = Date y (month (dt_date f)) (day (dt_date f))"
    using mk_date_Inr by blast
  from h show "get_ar_dates self y today = Inr (mn, clamp_to today mx)"
    by (simp add: get_ar_dates_def ar_dates_rule_BCOMP [of self f y mn])
next
  assume "legal_type self \<noteq> Some ''CP'' \<and> legal_type self \<noteq> Some ''BEN''
        \<and> 1 \<le> y \<and> y \<le> 9999"
  then show "get_ar_dates self y today = Inr (Date y 1 1, clamp_to today (Date y 12 31))"
    by (simp add: get_ar_dates_def ar_dates_rule_other)
qed

theorem get_ar_dates_rule_table_witness:
  "get_ar_dates ((new_business 1)\<lparr>legal_type := Some ''CP''\<rparr>) 2020 (Date 2026 11 4)
     = Inr (Date 2020 1 1, Date 2021 10 31)
   \<and> get_ar_dates ((new_business 1)\<lparr>legal_type := Some ''CP''\<rparr>) 2021 (Date 2026 11 4)
     = Inr (Date 2021 1 1, Date 2022 4 30)
   \<and> get_ar_dates
       ((new_business 2)\<lparr>legal_type := Some ''BEN'',
          founding_date := Some \<lparr>dt_date = Date 2019 3 15, dt_usec = 0\<rparr>\<rparr>)
       2021 (Date 2026 11 4)
     = Inr (Date 2021 3 15, Date 2021 5 14)
   \<and> get_ar_dates ((new_business 3)\<lparr>legal_type := Some ''BC''\<rparr>) 2021 (Date 2026 11 4)
     = Inr (Date 2021 1 1, Date 2021 12 31)"
proof -
  let ?today = "Date 2026 11 4"
  let ?cp = "(new_business 1)\<lparr>legal_type := Some ''CP''\<rparr>"
  let ?ben = "(new_business 2)\<lparr>legal_type := Some ''BEN'',
          founding_date := Some \<lparr>dt_date = Date 2019 3 15, dt_usec = 0\<rparr>\<rparr>"
  let ?bc = "(new_business 3)\<lparr>legal_type := Some ''BC''\<rparr>"
  have a: "get_ar_dates ?cp 2020 ?today = Inr (Date 2020 1 1, Date 2021 10 31)"
    using get_ar_dates_rule_table [where self = ?cp and y = 2020 and today = ?today]
    by (simp add: new_business_def date_eval)
  have b: "get_ar_dates ?cp 2021 ?today = Inr (Date 2021 1 1, Date 2022 4 30)"
    using get_ar_dates_rule_table [where self = ?cp and y = 2021 and today = ?today]
    by (simp add: new_business_def date_eval)
  have m: "mk_date 2021 3 15 = Inr (Date 2021 3 15)"
    by (simp add: date_eval)
  have x: "add_days (Date 2021 3 15) 60 = Inr (Date 2021 5 14)"
    by (simp add: date_eval)
  have c: "get_ar_dates ?ben 2021 ?today = Inr (Date 2021 3 15, Date 2021 5 14)"
    using get_ar_dates_rule_table [where self = ?ben and y = 2021 and today = ?today
        and f = "\<lparr>dt_date = Date 2019 3 15, dt_usec = 0\<rparr>" and mn = "Date 2021 3 15"
        and mx = "Date 2021 5 14"] m x
    by (simp add: new_business_def Date_def date_less_def clamp_to_def)
  have d: "get_ar_dates ?bc 2021 ?today = Inr (Date 2021 1 1, Date 2021 12 31)"
    using get_ar_dates_rule_table [where self = ?bc and y = 2021 and today = ?today]
    by (simp add: new_business_def date_eval)
  show ?thesis using a b c d by simp
qed

lemma clamp_to_le: "date_le (clamp_to today mx) today"
  by (simp add: clamp_to_def date_le_def date_less_irrefl)

lemma date_le_less_trans: "date_le a b \<Longrightarrow> date_less b c \<Longrightarrow> date_less a c"
  using date_le_iff date_less_trans by blast

lemma get_ar_dates_Inr:
  "get_ar_dates self y today = Inr (mn, mx) \<Longrightarrow>
     \<exists>mx0. ar_dates_rule self y = Inr (mn, mx0) \<and> mx = clamp_to today mx0"
  by (auto simp: get_ar_dates_def split: sum.splits)

text \<open>
  Claim C2. The maximum date \<open>get_ar_dates\<close> returns is never later than the current
  date: whenever the rule table gives a maximum after today, the returned maximum is today,
  and otherwise it is the maximum of the rule table. (The current date is read once; a call
  that spans midnight is outside the model.)
\<close>

theorem get_ar_dates_max_not_after_today:
  "get_ar_dates self y today = Inr (mn, mx) \<Longrightarrow>
     date_le mx today \<and>
     (\<exists>mx0. ar_dates_rule self y = Inr (mn, mx0)
        \<and> (date_less today mx0 \<longrightarrow> mx = today)
        \<and> (\<not> date_less today mx0 \<longrightarrow> mx = mx0))"
proof -
  assume "get_ar_dates self y today = Inr (mn, mx)"
  then obtain mx0 where r: "ar_dates_rule self y = Inr (mn, mx0)" and c: "mx = clamp_to today mx0"
    using get_ar_dates_Inr by blast
  have "date_le mx today" using c clamp_to_le by simp
  moreover have "date_less today mx0 \<longrightarrow> mx = today" "\<not> date_less today mx0 \<longrightarrow> mx = mx0"
    using c by (simp_all add: clamp_to_def)
  ultimately show ?thesis using r by blast
qed

theorem get_ar_dates_max_not_after_today_witness:
  "get_ar_dates ((new_business 1)\<lparr>legal_type := Some ''CP''\<rparr>) 2021 (Date 2021 6 1)
     = Inr (Date 2021 1 1, Date 2021 6 1)
   \<and> date_le (Date 2021 6 1) (Date 2021 6 1)
   \<and> ar_dates_rule ((new_business 1)\<lparr>legal_type := Some ''CP''\<rparr>) 2021
     = Inr (Date 2021 1 1, Date 2022 4 30)
   \<and> date_less (Date 2021 6 1) (Date 2022 4 30)"
proof -
  let ?cp = "(new_business 1)\<lparr>legal_type := Some ''CP''\<rparr>"
  have r: "ar_dates_rule ?cp 2021 = Inr (Date 2021 1 1, Date 2022 4 30)"
    by (simp add: ar_dates_rule_COOP new_business_def)
  have g: "get_ar_dates ?cp 2021 (Date 2021 6 1) = Inr (Date 2021 1 1, Date 2021 6 1)"
    by (simp add: get_ar_dates_def r clamp_to_def date_less_def Date_def)
  show ?thesis
    using get_ar_dates_max_not_after_today [OF g] g r
    by (simp add: date_less_def Date_def)
qed

subsection \<open>Day numbers\<close>

lemma days_before_year_nonneg: "1 \<le> y \<Longrightarrow> 0 \<le> days_before_year y"
  by (simp add: days_before_year_def Let_def)

lemma days_before_year_upper: "1 \<le> y \<Longrightarrow> y \<le> 9998 \<Longrightarrow> days_before_year y \<le> 3651330"
  by (simp add: days_before_year_def Let_def)

lemma days_before_month_bounds:
  assumes "1 \<le> m" "m \<le> 12" "d \<le> days_in_month y m"
  shows "0 \<le> days_before_month y m \<and> days_before_month y m + d \<le> 366"
proof -
  have "m = 1 \<or> m = 2 \<or> m = 3 \<or> m = 4 \<or> m = 5 \<or> m = 6 \<or> m = 7 \<or> m = 8 \<or> m = 9
          \<or> m = 10 \<or> m = 11 \<or> m = 12"
    using assms(1,2) by arith
  then show ?thesis
    using assms(3)
    by (elim disjE)
       (simp_all add: days_before_month_def DAYS_BEFORE_MONTH_def days_in_month_def
          DAYS_IN_MONTH_def split: if_splits)
qed

lemma toordinal_pos: "valid_date y m d \<Longrightarrow> 0 < toordinal (Date y m d)"
  using days_before_year_nonneg [of y] days_before_month_bounds [of m d y]
  by (simp add: valid_date_def toordinal_def Date_def MINYEAR_def)

lemma toordinal_upper:
  "valid_date y m d \<Longrightarrow> y \<le> 9998 \<Longrightarrow> toordinal (Date y m d) + 60 \<le> MAXORDINAL"
  using days_before_year_upper [of y] days_before_month_bounds [of m d y]
  by (simp add: valid_date_def toordinal_def Date_def MINYEAR_def MAXORDINAL_def)

lemma add_days_60_Inr:
  "valid_date y m d \<Longrightarrow>
     (\<exists>x. add_days (Date y m d) 60 = Inr x) \<longleftrightarrow> toordinal (Date y m d) + 60 \<le> MAXORDINAL"
  using toordinal_pos [of y m d] by (simp add: add_days_def Let_def)

subsection \<open>When the window of a benefit company exists\<close>

lemma ar_dates_rule_BCOMP_Inr:
  assumes "legal_type self = Some ''BEN''"
  shows "(\<exists>mn mx. ar_dates_rule self y = Inr (mn, mx)) \<longleftrightarrow>
         (\<exists>f. founding_date self = Some f
              \<and> valid_date y (month (dt_date f)) (day (dt_date f))
              \<and> toordinal (Date y (month (dt_date f)) (day (dt_date f))) + 60 \<le> MAXORDINAL)"
proof
  assume "\<exists>mn mx. ar_dates_rule self y = Inr (mn, mx)"
  then obtain mn mx where r: "ar_dates_rule self y = Inr (mn, mx)" by blast
  from r assms obtain f where f: "founding_date self = Some f"
    by (auto simp: ar_dates_rule_def COOP_def BCOMP_def split: sum.splits option.splits)
  let ?m = "month (dt_date f)" and ?d = "day (dt_date f)"
  from r assms f obtain a where a: "mk_date y ?m ?d = Inr a"
    by (auto simp: ar_dates_rule_def COOP_def BCOMP_def split: sum.splits)
  then have v: "valid_date y ?m ?d" and a': "a = Date y ?m ?d"
    using mk_date_Inr by blast+
  from r have "\<exists>x. add_days a 60 = Inr x"
    using ar_dates_rule_BCOMP [OF assms f a] by (auto split: sum.splits)
  then have "toordinal (Date y ?m ?d) + 60 \<le> MAXORDINAL"
    using add_days_60_Inr [OF v] a' by simp
  with f v show "\<exists>f. founding_date self = Some f
              \<and> valid_date y (month (dt_date f)) (day (dt_date f))
              \<and> toordinal (Date y (month (dt_date f)) (day (dt_date f))) + 60 \<le> MAXORDINAL"
    by blast
next
  assume "\<exists>f. founding_date self = Some f
              \<and> valid_date y (month (dt_date f)) (day (dt_date f))
              \<and> toordinal (Date y (month (dt_date f)) (day (dt_date f))) + 60 \<le> MAXORDINAL"
  then obtain f where f: "founding_date self = Some f"
    and v: "valid_date y (month (dt_date f)) (day (dt_date f))"
    and t: "toordinal (Date y (month (dt_date f)) (day (dt_date f))) + 60 \<le> MAXORDINAL"
    by blast
  let ?mn = "Date y (month (dt_date f)) (day (dt_date f))"
  have a: "mk_date y (month (dt_date f)) (day (dt_date f)) = Inr ?mn"
    using v by (rule mk_date_valid)
  obtain x where x: "add_days ?mn 60 = Inr x"
    using add_days_60_Inr [OF v] t by blast
  have "ar_dates_rule self y = Inr (?mn, x)"
    using ar_dates_rule_BCOMP [OF assms f a] x by simp
  then show "\<exists>mn mx. ar_dates_rule self y = Inr (mn, mx)" by blast
qed

lemma get_ar_dates_returns_iff:
  "(\<exists>mn mx. get_ar_dates self y today = Inr (mn, mx)) \<longleftrightarrow>
   (\<exists>mn mx. ar_dates_rule self y = Inr (mn, mx))"
  by (auto simp: get_ar_dates_def split: sum.splits)

lemma feb29_invalid: "\<not> is_leap y \<Longrightarrow> \<not> valid_date y 2 29"
  by (simp add: valid_date_def days_in_month_def DAYS_IN_MONTH_def)

lemma sum_not_Inr: "(\<nexists>a b. r = Inr (a, b)) \<Longrightarrow> \<exists>e. r = Inl e"
  by (cases r) auto

text \<open>
  Claim C9, as amended. \<open>get_ar_dates\<close> is not total for benefit companies: with a
  founding date of February 29 and a target year that is not a leap year the construction of
  the anniversary raises. It returns a window exactly when the founding date is set, the
  founding month and day exist in the target year, and the day 60 days after that
  anniversary is no later than 9999-12-31, the last date of the calendar; the last condition
  holds for every target year up to 9998.
\<close>

theorem get_ar_dates_BCOMP_total:
  "legal_type self = Some ''BEN'' \<Longrightarrow>
     (founding_date self = Some f \<and> month (dt_date f) = 2 \<and> day (dt_date f) = 29
        \<and> \<not> is_leap y \<longrightarrow>
      (\<exists>e. get_ar_dates self y today = Inl e))
     \<and> ((\<exists>mn mx. get_ar_dates self y today = Inr (mn, mx)) \<longleftrightarrow>
        (\<exists>g. founding_date self = Some g
             \<and> valid_date y (month (dt_date g)) (day (dt_date g))
             \<and> toordinal (Date y (month (dt_date g)) (day (dt_date g))) + 60 \<le> MAXORDINAL))
     \<and> (founding_date self = Some f \<and> valid_date y (month (dt_date f)) (day (dt_date f))
          \<and> y \<le> 9998 \<longrightarrow>
        (\<exists>mn mx. get_ar_dates self y today = Inr (mn, mx)))"
proof -
  assume ben: "legal_type self = Some ''BEN''"
  have iff: "(\<exists>mn mx. get_ar_dates self y today = Inr (mn, mx)) \<longleftrightarrow>
        (\<exists>g. founding_date self = Some g
             \<and> valid_date y (month (dt_date g)) (day (dt_date g))
             \<and> toordinal (Date y (month (dt_date g)) (day (dt_date g))) + 60 \<le> MAXORDINAL)"
    using ar_dates_rule_BCOMP_Inr [OF ben] get_ar_dates_returns_iff by simp
  have p1: "\<exists>e. get_ar_dates self y today = Inl e"
    if h: "founding_date self = Some f \<and> month (dt_date f) = 2 \<and> day (dt_date f) = 29
        \<and> \<not> is_leap y"
  proof -
    have "\<nexists>mn mx. get_ar_dates self y today = Inr (mn, mx)"
      using iff h feb29_invalid [of y] by auto
    then show ?thesis by (rule sum_not_Inr)
  qed
  have p3: "\<exists>mn mx. get_ar_dates self y today = Inr (mn, mx)"
    if h: "founding_date self = Some f \<and> valid_date y (month (dt_date f)) (day (dt_date f))
          \<and> y \<le> 9998"
    using iff h toordinal_upper [of y "month (dt_date f)" "day (dt_date f)"] by blast
  show ?thesis using iff p1 p3 by blast
qed

theorem get_ar_dates_BCOMP_total_witness:
  "get_ar_dates
      ((new_business 2)\<lparr>legal_type := Some ''BEN'',
         founding_date := Some \<lparr>dt_date = Date 2020 2 29, dt_usec = 0\<rparr>\<rparr>)
      2021 (Date 2026 11 4) = Inl ValueError
   \<and> get_ar_dates
      ((new_business 2)\<lparr>legal_type := Some ''BEN'',
         founding_date := Some \<lparr>dt_date = Date 2020 2 29, dt_usec = 0\<rparr>\<rparr>)
      2024 (Date 2026 11 4) = Inr (Date 2024 2 29, Date 2024 4 29)
   \<and> \<not> is_leap 2021 \<and> valid_date 2024 2 29
   \<and> toordinal (Date 2024 2 29) + 60 \<le> MAXORDINAL"
proof -
  let ?f = "\<lparr>dt_date = Date 2020 2 29, dt_usec = 0\<rparr>"
  let ?b = "(new_business 2)\<lparr>legal_type := Some ''BEN'', founding_date := Some ?f\<rparr>"
  have ben: "legal_type ?b = Some ''BEN''" by simp
  have a: "get_ar_dates ?b 2021 (Date 2026 11 4) = Inl ValueError"
    by (simp add: get_ar_dates_def ar_dates_rule_def COOP_def BCOMP_def new_business_def date_eval)
  have b: "get_ar_dates ?b 2024 (Date 2026 11 4) = Inr (Date 2024 2 29, Date 2024 4 29)"
    by (simp add: get_ar_dates_def ar_dates_rule_def COOP_def BCOMP_def new_business_def date_eval)
  have c: "\<not> is_leap 2021" "valid_date 2024 2 29" "toordinal (Date 2024 2 29) + 60 \<le> MAXORDINAL"
    by (simp_all add: date_eval)
  show ?thesis
    using get_ar_dates_BCOMP_total [OF ben, where f = ?f and y = 2021 and today = "Date 2026 11 4"]
      get_ar_dates_BCOMP_total [OF ben, where f = ?f and y = 2024 and today = "Date 2026 11 4"]
      a b c
    by simp
qed

text \<open>
  Claim C9 as stated says that the window exists whenever the founding month and day exist in
  the target year. A benefit company founded on a December 1, asked for the target year
  9999, has its anniversary 9999-12-01, and adding 60 days to it raises OverflowError.
\<close>

theorem get_ar_dates_BCOMP_total_counterexample:
  "legal_type ((new_business 2)\<lparr>legal_type := Some ''BEN'',
        founding_date := Some \<lparr>dt_date = Date 2000 12 1, dt_usec = 0\<rparr>\<rparr>) = Some ''BEN''
   \<and> mk_date 9999 12 1 = Inr (Date 9999 12 1)
   \<and> get_ar_dates
        ((new_business 2)\<lparr>legal_type := Some ''BEN'',
           founding_date := Some \<lparr>dt_date = Date 2000 12 1, dt_usec = 0\<rparr>\<rparr>)
        9999 (Date 2026 11 4)
      = Inl OverflowError"
  by (simp add: get_ar_dates_def ar_dates_rule_def COOP_def BCOMP_def new_business_def date_eval)


subsection \<open>Windows that end before they begin\<close>

lemma jan1_less_rule_max:
  "date_less (Date y 1 1) (if y = 2020 then Date 2021 10 31 else Date (y + 1) 4 30)"
  "date_less (Date y 1 1) (Date y 12 31)"
  by (simp_all add: date_less_def Date_def)

text \<open>
  Claim C10. \<open>get_ar_dates\<close> does not guarantee a window with a day in it. Whenever the
  minimum it returns is after the current date, the clamped maximum it returns is strictly
  before the minimum. That happens for every legal type other than BEN when January 1 of
  the target year is after the current date, and for a benefit company when its
  anniversary in the target year is after the current date.
\<close>

theorem get_ar_dates_window_may_be_empty:
  "(get_ar_dates self y today = Inr (mn, mx) \<and> date_less today mn \<longrightarrow> date_less mx mn)
   \<and> (legal_type self \<noteq> Some ''BEN'' \<and> 1 \<le> y \<and> y \<le> 9998 \<and> date_less today (Date y 1 1) \<longrightarrow>
        get_ar_dates self y today = Inr (Date y 1 1, today))
   \<and> (legal_type self = Some ''BEN'' \<and> founding_date self = Some f
        \<and> mk_date y (month (dt_date f)) (day (dt_date f)) = Inr a
        \<and> add_days a 60 = Inr x \<and> date_less today a \<longrightarrow>
        (\<exists>mx'. get_ar_dates self y today = Inr (a, mx') \<and> date_less mx' a))"
proof (intro conjI impI)
  assume h: "get_ar_dates self y today = Inr (mn, mx) \<and> date_less today mn"
  then obtain mx0 where "mx = clamp_to today mx0" using get_ar_dates_Inr by blast
  then have "date_le mx today" using clamp_to_le by simp
  then show "date_less mx mn" using h date_le_less_trans by blast
next
  assume h: "legal_type self \<noteq> Some ''BEN'' \<and> 1 \<le> y \<and> y \<le> 9998 \<and> date_less today (Date y 1 1)"
  show "get_ar_dates self y today = Inr (Date y 1 1, today)"
  proof (cases "legal_type self = Some ''CP''")
    case True
    have "date_less today (if y = 2020 then Date 2021 10 31 else Date (y + 1) 4 30)"
      using h jan1_less_rule_max(1) [of y] date_less_trans by blast
    then show ?thesis
      using True h by (simp add: get_ar_dates_def ar_dates_rule_COOP clamp_to_def)
  next
    case False
    have "date_less today (Date y 12 31)"
      using h jan1_less_rule_max(2) [of y] date_less_trans by blast
    then show ?thesis
      using False h by (simp add: get_ar_dates_def ar_dates_rule_other clamp_to_def)
  qed
next
  assume h: "legal_type self = Some ''BEN'' \<and> founding_date self = Some f
        \<and> mk_date y (month (dt_date f)) (day (dt_date f)) = Inr a
        \<and> add_days a 60 = Inr x \<and> date_less today a"
  then have r: "ar_dates_rule self y = Inr (a, x)"
    using ar_dates_rule_BCOMP [of self f y a] by simp
  then have g: "get_ar_dates self y today = Inr (a, clamp_to today x)"
    by (simp add: get_ar_dates_def)
  have "date_less (clamp_to today x) a"
    using clamp_to_le [of today x] h date_le_less_trans by blast
  with g show "\<exists>mx'. get_ar_dates self y today = Inr (a, mx') \<and> date_less mx' a"
    by blast
qed

theorem get_ar_dates_window_may_be_empty_witness:
  "get_ar_dates ((new_business 3)\<lparr>legal_type := Some ''BC''\<rparr>) 2030 (Date 2026 11 4)
     = Inr (Date 2030 1 1, Date 2026 11 4)
   \<and> date_less (Date 2026 11 4) (Date 2030 1 1)
   \<and> get_ar_dates
       ((new_business 2)\<lparr>legal_type := Some ''BEN'',
          founding_date := Some \<lparr>dt_date = Date 2019 12 15, dt_usec = 0\<rparr>\<rparr>)
       2026 (Date 2026 11 4)
     = Inr (Date 2026 12 15, Date 2026 11 4)
   \<and> date_less (Date 2026 11 4) (Date 2026 12 15)"
proof -
  let ?today = "Date 2026 11 4"
  let ?bc = "(new_business 3)\<lparr>legal_type := Some ''BC''\<rparr>"
  let ?f = "\<lparr>dt_date = Date 2019 12 15, dt_usec = 0\<rparr>"
  let ?ben = "(new_business 2)\<lparr>legal_type := Some ''BEN'', founding_date := Some ?f\<rparr>"
  have l1: "date_less ?today (Date 2030 1 1)" "date_less ?today (Date 2026 12 15)"
    by (simp_all add: date_less_def Date_def)
  have a: "get_ar_dates ?bc 2030 ?today = Inr (Date 2030 1 1, ?today)"
    using get_ar_dates_window_may_be_empty [where self = ?bc and y = 2030 and today = ?today] l1
    by (simp add: new_business_def)
  have m: "mk_date 2026 12 15 = Inr (Date 2026 12 15)"
    by (simp add: date_eval)
  have x: "add_days (Date 2026 12 15) 60 = Inr (Date 2027 2 13)"
    by (simp add: date_eval)
  have g: "get_ar_dates ?ben 2026 ?today = Inr (Date 2026 12 15, ?today)"
    using m x
    by (simp add: get_ar_dates_def ar_dates_rule_BCOMP [where f = ?f and mn = "Date 2026 12 15"]
          new_business_def clamp_to_def date_less_def Date_def)
  have b: "date_less ?today (Date 2026 12 15)"
    using get_ar_dates_window_may_be_empty [where self = ?ben and y = 2026 and today = ?today
        and mn = "Date 2026 12 15" and mx = ?today] g l1
    by simp
  show ?thesis using a b g l1 by simp
qed

section \<open>Good standing\<close>

lemma datetime_less_irrefl: "\<not> datetime_less a a"
  by (simp add: datetime_less_def date_less_irrefl)

text \<open>
  Claim C3. \<open>good_standing\<close> is true if and only if the date of the last annual report,
  or the founding date when no annual report has been filed, plus 1 year, 2 months and 1
  day is strictly later than the current time. When that sum exists the property returns
  exactly this comparison, and its value depends on the business through those two dates
  only. (With neither date set, or when the addition raises, the property raises and so is
  not true.) The statement holds for every addition \<open>add_delta\<close> of a delta to a
  timestamp.
\<close>

theorem good_standing_iff:
  "(good_standing add_delta self now = Inr True \<longleftrightarrow>
      (\<exists>d t. (case last_ar_date self of Some l \<Rightarrow> Some l | None \<Rightarrow> founding_date self) = Some d
           \<and> add_delta d \<lparr>years = 1, months = 2, days = 1\<rparr> = Inr t
           \<and> datetime_less now t))
   \<and> ((case last_ar_date self of Some l \<Rightarrow> Some l | None \<Rightarrow> founding_date self) = Some d
        \<and> add_delta d \<lparr>years = 1, months = 2, days = 1\<rparr> = Inr t \<longrightarrow>
      good_standing add_delta self now = Inr (datetime_less now t))
   \<and> (last_ar_date self = last_ar_date other \<and> founding_date self = founding_date other \<longrightarrow>
      good_standing add_delta self now = good_standing add_delta other now)"
  by (auto simp: good_standing_def last_ar_date_or_founding_date_def good_standing_delta_def
      split: option.splits sum.splits)

text \<open>
  An instance: the delta is added field by field, which is calendar addition for the two
  dates used, where no field overflows. A last annual report of 2025-10-01 gives
  2026-12-02, after the current time 2026-11-04; a founding date of 2025-09-01 with no
  annual report gives 2026-11-02, before it.
\<close>

theorem good_standing_iff_witness:
  "good_standing
      (\<lambda>d dd. Inr (d\<lparr>dt_date := Date (year (dt_date d) + years dd)
                                (month (dt_date d) + months dd) (day (dt_date d) + days dd)\<rparr>))
      ((new_business 1)\<lparr>last_ar_date := Some \<lparr>dt_date = Date 2025 10 1, dt_usec = 0\<rparr>,
          founding_date := Some \<lparr>dt_date = Date 2019 3 15, dt_usec = 0\<rparr>\<rparr>)
      \<lparr>dt_date = Date 2026 11 4, dt_usec = 0\<rparr> = Inr True
   \<and> good_standing
      (\<lambda>d dd. Inr (d\<lparr>dt_date := Date (year (dt_date d) + years dd)
                                (month (dt_date d) + months dd) (day (dt_date d) + days dd)\<rparr>))
      ((new_business 1)\<lparr>founding_date := Some \<lparr>dt_date = Date 2025 9 1, dt_usec = 0\<rparr>\<rparr>)
      \<lparr>dt_date = Date 2026 11 4, dt_usec = 0\<rparr> = Inr False"
proof -
  let ?add = "\<lambda>d dd. Inr (d\<lparr>dt_date := Date (year (dt_date d) + years dd)
                                (month (dt_date d) + months dd) (day (dt_date d) + days dd)\<rparr>)
                :: exn + datetime"
  let ?now = "\<lparr>dt_date = Date 2026 11 4, dt_usec = 0\<rparr>"
  let ?b1 = "(new_business 1)\<lparr>last_ar_date := Some \<lparr>dt_date = Date 2025 10 1, dt_usec = 0\<rparr>,
          founding_date := Some \<lparr>dt_date = Date 2019 3 15, dt_usec = 0\<rparr>\<rparr>"
  let ?b2 = "(new_business 1)\<lparr>founding_date := Some \<lparr>dt_date = Date 2025 9 1, dt_usec = 0\<rparr>\<rparr>"
  have a: "good_standing ?add ?b1 ?now = Inr True"
    using good_standing_iff [where add_delta = ?add and self = ?b1 and now = ?now
        and d = "\<lparr>dt_date = Date 2025 10 1, dt_usec = 0\<rparr>"
        and t = "\<lparr>dt_date = Date 2026 12 2, dt_usec = 0\<rparr>" and other = ?b1]
    by (simp add: new_business_def Date_def datetime_less_def date_less_def)
  have b: "good_standing ?add ?b2 ?now = Inr False"
    using good_standing_iff [where add_delta = ?add and self = ?b2 and now = ?now
        and d = "\<lparr>dt_date = Date 2025 9 1, dt_usec = 0\<rparr>"
        and t = "\<lparr>dt_date = Date 2026 11 2, dt_usec = 0\<rparr>" and other = ?b2]
    by (simp add: new_business_def Date_def datetime_less_def date_less_def)
  show ?thesis using a b by simp
qed

section \<open>Identifiers\<close>

lemmas ident_eval = validate_identifier_def slice_last_def slice_but_last_def py_int_def
  strip_def parse_unsigned_def is_digit_def digit_val_def is_py_space_def

text \<open>
  Claim C4. \<open>validate_identifier\<close> returns true for a string that starts with NR;
  otherwise it returns true if and only if the string has at least 9 characters, its last 7
  characters parse (with \<open>int\<close>) as an integer other than zero, and the characters
  before them are one of the prefixes CP, XCP and BC.
\<close>

theorem validate_identifier_iff:
  "validate_identifier s =
     (if take 2 s = ''NR'' then True
      else 9 \<le> length s
           \<and> (\<exists>d. py_int (drop (length s - 7) s) = Some d \<and> d \<noteq> 0)
           \<and> take (length s - 7) s \<in> {''CP'', ''XCP'', ''BC''})"
  by (auto simp: validate_identifier_def slice_last_def slice_but_last_def split: option.splits)

text \<open>
  In particular CP1234567 is valid, CP0000000 is not, and NRxyz is valid.
\<close>

theorem validate_identifier_iff_witness:
  "validate_identifier ''CP1234567'' \<and> \<not> validate_identifier ''CP0000000''
   \<and> validate_identifier ''NRxyz''
   \<and> py_int ''1234567'' = Some 1234567 \<and> py_int ''0000000'' = Some 0"
proof -
  have a: "py_int ''1234567'' = Some 1234567" "py_int ''0000000'' = Some 0"
    by (simp_all add: ident_eval)
  show ?thesis
    using validate_identifier_iff [of "''CP1234567''"] validate_identifier_iff [of "''CP0000000''"]
      validate_identifier_iff [of "''NRxyz''"] a
    by simp
qed

text \<open>
  Claim C5 says that every accepted string that does not start with NR ends in 7 decimal
  digits. The code parses the last 7 characters with \<open>int\<close>, which also takes a sign,
  surrounding white space and underscores between digits: CP+123456 is accepted although
  its last 7 characters are not all digits, and so are \<open>CP 123456\<close> and BC1_23456.
\<close>

theorem validate_identifier_accepts_non_digits:
  "validate_identifier ''CP+123456''
   \<and> take 2 ''CP+123456'' \<noteq> ''NR''
   \<and> slice_last 7 ''CP+123456'' = ''+123456''
   \<and> \<not> is_digit (CHR ''+'')
   \<and> validate_identifier ''CP 123456''
   \<and> validate_identifier ''BC1_23456''"
  by (simp add: ident_eval)

text \<open>
  Claim C6. Assigning a value to the identifier raises the exception
  invalid-identifier-format if and only if \<open>validate_identifier\<close> returns false for it;
  when the validation succeeds the stored identifier becomes exactly that value and nothing
  else changes, and when it fails the business is unchanged.
\<close>

theorem set_identifier_spec:
  "(fst (set_identifier self v) = Some (BusinessException ''invalid-identifier-format'' 406)
      \<longleftrightarrow> \<not> validate_identifier v)
   \<and> (fst (set_identifier self v) = None \<longleftrightarrow> validate_identifier v)
   \<and> (validate_identifier v \<longrightarrow>
        identifier_col (snd (set_identifier self v)) = Some v
        \<and> snd (set_identifier self v) = self\<lparr>identifier_col := Some v\<rparr>)
   \<and> (\<not> validate_identifier v \<longrightarrow> snd (set_identifier self v) = self)"
  by (simp add: set_identifier_def)

theorem set_identifier_spec_witness:
  "set_identifier (new_business 1) ''CP1234567''
     = (None, (new_business 1)\<lparr>identifier_col := Some ''CP1234567''\<rparr>)
   \<and> set_identifier ((new_business 1)\<lparr>identifier_col := Some ''CP1234567''\<rparr>) ''CP0000000''
     = (Some (BusinessException ''invalid-identifier-format'' 406),
        (new_business 1)\<lparr>identifier_col := Some ''CP1234567''\<rparr>)"
proof -
  have v: "validate_identifier ''CP1234567''" "\<not> validate_identifier ''CP0000000''"
    by (simp_all add: ident_eval)
  show ?thesis
    using set_identifier_spec [of "new_business 1" "''CP1234567''"]
      set_identifier_spec [of "(new_business 1)\<lparr>identifier_col := Some ''CP1234567''\<rparr>" "''CP0000000''"]
      v
    by (simp add: prod_eq_iff)
qed

section \<open>Deleting a business\<close>

lemma or_default_Some:
  "v \<noteq> None \<Longrightarrow> or_default v d = v"
  by (cases v) (simp_all add: or_default_def)

lemma or_default_None:
  "or_default None d = Some d"
  by (simp add: or_default_def)












section \<open>The dissolution validator\<close>

text \<open>
  Claim C8. The validator returns an error, with status 400 and the one-entry list saying
  that a valid business and filing are required, if and only if the business or the filing
  document is missing, where a document is missing when it is None or has no entry (both
  are falsy for \<open>not con\<close>); otherwise it returns None. It is a total function: it
  returns in every case and raises nothing.
\<close>

theorem validate_dissolution:
  "(validate gettext business con \<noteq> None
      \<longleftrightarrow> business = None \<or> con = None \<or> con = Some [])
   \<and> (validate gettext business con \<noteq> None \<longrightarrow>
        validate gettext business con =
          Some \<lparr>code = 400,
                msg = [[(''error'', gettext ''A valid business and filing are required.'')]]\<rparr>)
   \<and> (validate gettext business con = None
      \<longleftrightarrow> (\<exists>b kv kvs. business = Some b \<and> con = Some (kv # kvs)))"
  by (cases con; cases business; cases "the con")
     (simp_all add: validate_def truthy_business_def truthy_dict_def)

theorem validate_dissolution_witness:
  "validate (\<lambda>s. s) (None :: business option) (Some [(''dissolution'', ''x'')])
     = Some \<lparr>code = 400, msg = [[(''error'', ''A valid business and filing are required.'')]]\<rparr>
   \<and> validate (\<lambda>s. s) (Some (new_business 1)) (Some ([] :: (string \<times> string) list))
     = Some \<lparr>code = 400, msg = [[(''error'', ''A valid business and filing are required.'')]]\<rparr>
   \<and> validate (\<lambda>s. s) (Some (new_business 1)) (Some [(''dissolution'', ''x'')]) = None"
proof -
  let ?doc = "Some [(''dissolution'', ''x'')] :: (string \<times> string) list option"
  have a: "validate (\<lambda>s. s) None ?doc \<noteq> None"
    using validate_dissolution [of "\<lambda>s. s" None ?doc] by blast
  have b: "validate (\<lambda>s. s) (Some (new_business 1)) (Some ([] :: (string \<times> string) list)) \<noteq> None"
    using validate_dissolution [of "\<lambda>s. s" "Some (new_business 1)" "Some []"] by blast
  have c: "validate (\<lambda>s. s) (Some (new_business 1)) ?doc = None"
    using validate_dissolution [of "\<lambda>s. s" "Some (new_business 1)" ?doc] by blast
  have a': "validate (\<lambda>s. s) None ?doc
     = Some \<lparr>code = 400, msg = [[(''error'', ''A valid business and filing are required.'')]]\<rparr>"
    using a validate_dissolution [of "\<lambda>s. s" None ?doc] by blast
  have b': "validate (\<lambda>s. s) (Some (new_business 1)) (Some ([] :: (string \<times> string) list))
     = Some \<lparr>code = 400, msg = [[(''error'', ''A valid business and filing are required.'')]]\<rparr>"
    using b validate_dissolution [of "\<lambda>s. s" "Some (new_business 1)" "Some []"] by blast
  show ?thesis using a' b' c by (intro conjI)
qed

end
